theory Spec2Isabelle
  imports Complex_Main
begin

section \<open>JavaScript values\<close>

text \<open>
  The values that cross the boundaries of the front end: arguments of the functions the
  preload script exposes, JSON bodies of HTTP responses, entries of the jobs list.
  A number is given by the exact value of its double, a string is the list of its code
  units, and a function is known by its identity only. An array and an object carry the
  identity of their reference beside their content; the content of an object is the list
  of its own enumerable properties in the order of their creation, each key once.
\<close>

datatype jsval =
    JUndefined
  | JNull
  | JBool bool
  | JNum rat
  | JStr string
  | JArr nat "jsval list"
  | JObj nat "(string \<times> jsval) list"
  | JFun nat

text \<open>The content of an object whose identity plays no part.\<close>

type_synonym obj = "(string \<times> jsval) list"

text \<open>
  A template literal is kept as the list of its pieces, literal chunks as \<open>JStr\<close> and each
  substitution as the value substituted; the string it denotes is the concatenation of the
  pieces after \<open>ToString\<close>.
\<close>

type_synonym template = "jsval list"

text \<open>\<open>typeof v === 'string'\<close> and \<open>typeof v === 'function'\<close>.\<close>

fun is_string :: "jsval \<Rightarrow> bool" where
  "is_string (JStr s) = True"
| "is_string v = False"

fun is_function :: "jsval \<Rightarrow> bool" where
  "is_function (JFun f) = True"
| "is_function v = False"

text \<open>\<open>ToBoolean\<close>: what \<open>if (v)\<close>, \<open>!v\<close> and \<open>v || w\<close> test.\<close>

fun truthy :: "jsval \<Rightarrow> bool" where
  "truthy JUndefined = False"
| "truthy JNull = False"
| "truthy (JBool b) = b"
| "truthy (JNum n) = (n \<noteq> 0)"
| "truthy (JStr s) = (s \<noteq> [])"
| "truthy (JArr r xs) = True"
| "truthy (JObj r fs) = True"
| "truthy (JFun f) = True"

text \<open>
  \<open>a === b\<close>. Primitives compare by value; arrays, objects and functions are equal when
  they are one and the same reference, whatever their content.
\<close>

fun strict_eq :: "jsval \<Rightarrow> jsval \<Rightarrow> bool" where
  "strict_eq (JObj r a) (JObj r' b) = (r = r')"
| "strict_eq (JArr r a) (JArr r' b) = (r = r')"
| "strict_eq (JObj r a) v = False"
| "strict_eq (JArr r a) v = False"
| "strict_eq v (JObj r a) = False"
| "strict_eq v (JArr r a) = False"
| "strict_eq a b = (a = b)"

text \<open>
  \<open>o.k\<close> on an object, for a key that \<open>Object.prototype\<close> does not define: the own
  property, \<open>undefined\<close> when there is none.
\<close>

definition get :: "obj \<Rightarrow> string \<Rightarrow> jsval" where
  "get ob k = (case map_of ob k of None \<Rightarrow> JUndefined | Some v \<Rightarrow> v)"

text \<open>The decimal numeral of an array index, as a property key.\<close>

fun index_key :: "nat \<Rightarrow> string" where
  "index_key n =
     (if n < 10 then [''0123456789'' ! n]
      else index_key (n div 10) @ [''0123456789'' ! (n mod 10)])"

text \<open>
  The array index a key stands for, if any: the key is the decimal numeral, without
  leading zeros, of a number below \<open>2^32 - 1\<close>.
\<close>

definition digit_value :: "char \<Rightarrow> nat" where
  "digit_value c = length (takeWhile (\<lambda>d. d \<noteq> c) ''0123456789'')"

definition decimal_value :: "string \<Rightarrow> nat" where
  "decimal_value k = foldl (\<lambda>acc c. 10 * acc + digit_value c) 0 k"

definition index_of_key :: "string \<Rightarrow> nat option" where
  "index_of_key k =
     (if k \<noteq> [] \<and> list_all (\<lambda>c. c \<in> set ''0123456789'') k \<and>
         index_key (decimal_value k) = k \<and> decimal_value k < 4294967295
      then Some (decimal_value k) else None)"

text \<open>
  The own properties in the order in which JavaScript enumerates them: those whose key
  is an array index first, by ascending index, then the others in the order of their
  creation.
\<close>

definition own_entries :: "(string \<times> 'a) list \<Rightarrow> (string \<times> 'a) list" where
  "own_entries fs =
     sort_key (\<lambda>p. the (index_of_key (fst p))) (filter (\<lambda>p. index_of_key (fst p) \<noteq> None) fs) @
     filter (\<lambda>p. index_of_key (fst p) = None) fs"

text \<open>Writing a property on an object under construction: in place, or created last.\<close>

fun assign :: "obj \<Rightarrow> string \<Rightarrow> jsval \<Rightarrow> obj" where
  "assign [] k v = [(k, v)]"
| "assign (p # ps) k v = (if fst p = k then (k, v) # ps else p # assign ps k v)"

text \<open>
  \<open>{ ...a, ...b }\<close>: a new object that receives the properties of \<open>a\<close> as \<open>a\<close> enumerates
  them, then those of \<open>b\<close> as \<open>b\<close> enumerates them, written over the ones it has.
\<close>

definition spread :: "obj \<Rightarrow> obj \<Rightarrow> obj" where
  "spread a b = fold (\<lambda>(k, v) acc. assign acc k v) (own_entries b) (own_entries a)"

text \<open>\<open>String.prototype.includes\<close>: the pattern occurs at some position.\<close>

fun str_includes :: "string \<Rightarrow> string \<Rightarrow> bool" where
  "str_includes [] pat = (pat = [])"
| "str_includes (c # cs) pat = (take (length pat) (c # cs) = pat \<or> str_includes cs pat)"

text \<open>
  \<open>Object.entries(v)\<close>: a \<open>TypeError\<close> (\<open>Inl\<close> its message) on \<open>undefined\<close> and \<open>null\<close>, the
  own enumerable properties otherwise, in enumeration order; index properties for an array
  and for a string, none for the other primitives.
\<close>

fun Object_entries :: "jsval \<Rightarrow> string + (string \<times> jsval) list" where
  "Object_entries JUndefined = Inl ''Cannot convert undefined or null to object''"
| "Object_entries JNull = Inl ''Cannot convert undefined or null to object''"
| "Object_entries (JObj r fs) = Inr (own_entries fs)"
| "Object_entries (JArr r xs) = Inr (zip (map index_key [0..<length xs]) xs)"
| "Object_entries (JStr s) = Inr (zip (map index_key [0..<length s]) (map (\<lambda>c. JStr [c]) s))"
| "Object_entries v = Inr []"

subsection \<open>Arithmetic on doubles\<close>

text \<open>The power of two of an integer exponent.\<close>

definition pow2 :: "int \<Rightarrow> rat" where
  "pow2 k = (if 0 \<le> k then 2 ^ nat k else 1 / 2 ^ nat (- k))"

text \<open>The number of binary digits of a natural number.\<close>

fun bit_length :: "nat \<Rightarrow> nat" where
  "bit_length n = (if n = 0 then 0 else Suc (bit_length (n div 2)))"

declare bit_length.simps [simp del]

text \<open>For \<open>x > 0\<close>, the exponent \<open>e\<close> with \<open>2^e \<le> x < 2^(e + 1)\<close>.\<close>

definition binade :: "rat \<Rightarrow> int" where
  "binade x =
     (if 1 \<le> x then int (bit_length (nat \<lfloor>x\<rfloor>)) - 1
      else - int (bit_length (nat (\<lceil>1 / x\<rceil> - 1))))"

text \<open>The nearest integer, a tie going to the even one.\<close>

definition round_half_even :: "rat \<Rightarrow> int" where
  "round_half_even x =
     (if x - of_int \<lfloor>x\<rfloor> < 1 / 2 then \<lfloor>x\<rfloor>
      else if 1 / 2 < x - of_int \<lfloor>x\<rfloor> then \<lfloor>x\<rfloor> + 1
      else if even \<lfloor>x\<rfloor> then \<lfloor>x\<rfloor>
      else \<lfloor>x\<rfloor> + 1)"

text \<open>
  Rounding an exact result to the double that holds it (IEEE 754 binary64, to nearest,
  ties to even): 53 significant bits at the exponent of \<open>x\<close>, and no exponent below that of
  the subnormal numbers. Overflow to infinity, from \<open>2^1024\<close> on, is not represented.
\<close>

definition to_double :: "rat \<Rightarrow> rat" where
  "to_double x =
     (if x = 0 then 0
      else (let k = max (binade \<bar>x\<bar>) (- 1022) - 52
            in of_int (round_half_even (x / pow2 k)) * pow2 k))"

text \<open>\<open>a * b\<close> on doubles: the exact product, rounded.\<close>

definition double_times :: "rat \<Rightarrow> rat \<Rightarrow> rat" where
  "double_times a b = to_double (a * b)"

text \<open>
  \<open>Math.round\<close>: the integer nearest to the value of the double, a tie going up. The
  result is exact.
\<close>

definition Math_round :: "rat \<Rightarrow> int" where
  "Math_round x = \<lfloor>x + 1 / 2\<rfloor>"

section \<open>preload.js: the API exposed to the renderer\<close>

definition MAX_LISTENERS :: nat where
  "MAX_LISTENERS = 10"

text \<open>\<open>validateString(value, maxLength = 4096)\<close>.\<close>

definition validateString :: "jsval \<Rightarrow> nat \<Rightarrow> bool" where
  "validateString v maxLength =
     (case v of JStr s \<Rightarrow> 0 < length s \<and> length s \<le> maxLength | _ \<Rightarrow> False)"

text \<open>\<open>validatePath(path)\<close>; \<open>path.includes\<close> is reached for strings only.\<close>

definition validatePath :: "jsval \<Rightarrow> bool" where
  "validatePath path =
     (validateString path 4096 \<and> (case path of JStr s \<Rightarrow> \<not> str_includes s ''..'' | _ \<Rightarrow> False))"

text \<open>
  What a call through the bridge does outside the renderer, in order: messages sent to the
  main process with \<open>ipcRenderer.invoke\<close>, and directories handed to \<open>shell.openPath\<close>.
\<close>

datatype effect =
    IpcInvoke string jsval
  | ShellOpenPath jsval

text \<open>The promise a call returns, once settled.\<close>

datatype settled =
    Rejected string
  | Resolved jsval

text \<open>
  A handler registered with \<open>ipcMain.handle\<close>: from the argument to the effects of the
  main process and the value it returns.
\<close>

type_synonym handler = "jsval \<Rightarrow> effect list \<times> settled"

text \<open>\<open>openDirectory\<close> of preload.js, over the handler of the \<open>open-directory\<close> channel.\<close>

definition openDirectory :: "handler \<Rightarrow> jsval \<Rightarrow> effect list \<times> settled" where
  "openDirectory h path =
     (if \<not> validatePath path then ([], Rejected ''Invalid path'')
      else (case h path of (es, r) \<Rightarrow> (IpcInvoke ''open-directory'' path # es, r)))"

text \<open>
  The repository holds a second preload script, which forwards the call as it is.
\<close>

definition openDirectory_plain :: "handler \<Rightarrow> jsval \<Rightarrow> effect list \<times> settled" where
  "openDirectory_plain h path =
     (case h path of (es, r) \<Rightarrow> (IpcInvoke ''open-directory'' path # es, r))"

text \<open>
  The listener counters of preload.js and the listeners registered with
  \<open>ipcRenderer.on\<close>, each with its channel. Nothing in the script removes a listener.
\<close>

record preload_state =
  logListenerCount :: nat
  errorListenerCount :: nat
  exitListenerCount :: nat
  listeners :: "(string \<times> jsval) list"

definition preload_init :: preload_state where
  "preload_init =
     \<lparr>logListenerCount = 0, errorListenerCount = 0, exitListenerCount = 0, listeners = []\<rparr>"

definition onPythonLog :: "jsval \<Rightarrow> preload_state \<Rightarrow> preload_state" where
  "onPythonLog callback st =
     (if \<not> is_function callback then st
      else if logListenerCount st \<ge> MAX_LISTENERS then st
      else st\<lparr>logListenerCount := logListenerCount st + 1,
              listeners := listeners st @ [(''python-log'', callback)]\<rparr>)"

definition onPythonError :: "jsval \<Rightarrow> preload_state \<Rightarrow> preload_state" where
  "onPythonError callback st =
     (if \<not> is_function callback then st
      else if errorListenerCount st \<ge> MAX_LISTENERS then st
      else st\<lparr>errorListenerCount := errorListenerCount st + 1,
              listeners := listeners st @ [(''python-error'', callback)]\<rparr>)"

definition onPythonExit :: "jsval \<Rightarrow> preload_state \<Rightarrow> preload_state" where
  "onPythonExit callback st =
     (if \<not> is_function callback then st
      else if exitListenerCount st \<ge> MAX_LISTENERS then st
      else st\<lparr>exitListenerCount := exitListenerCount st + 1,
              listeners := listeners st @ [(''python-exit'', callback)]\<rparr>)"

text \<open>A call of the renderer on one of the three registration functions.\<close>

datatype api_call =
    OnPythonLog jsval
  | OnPythonError jsval
  | OnPythonExit jsval

fun api_step :: "api_call \<Rightarrow> preload_state \<Rightarrow> preload_state" where
  "api_step (OnPythonLog cb) st = onPythonLog cb st"
| "api_step (OnPythonError cb) st = onPythonError cb st"
| "api_step (OnPythonExit cb) st = onPythonExit cb st"

definition api_run :: "api_call list \<Rightarrow> preload_state" where
  "api_run calls = fold api_step calls preload_init"

text \<open>The number of callbacks registered on a channel.\<close>

definition registered :: "string \<Rightarrow> preload_state \<Rightarrow> nat" where
  "registered ch st = length (filter (\<lambda>p. fst p = ch) (listeners st))"

text \<open>
  Each counter is the number of listeners registered on its channel, and none is above
  \<open>MAX_LISTENERS\<close>.
\<close>

definition counts_agree :: "preload_state \<Rightarrow> bool" where
  "counts_agree st =
     (registered ''python-log'' st = logListenerCount st \<and>
      registered ''python-error'' st = errorListenerCount st \<and>
      registered ''python-exit'' st = exitListenerCount st \<and>
      logListenerCount st \<le> MAX_LISTENERS \<and>
      errorListenerCount st \<le> MAX_LISTENERS \<and>
      exitListenerCount st \<le> MAX_LISTENERS)"

section \<open>The main process: handlers of the open-directory channel\<close>

text \<open>What the file system answers to \<open>fs.existsSync\<close> and \<open>fs.statSync\<close>.\<close>

datatype node_kind = Directory | NotDirectory

type_synonym filesystem = "string \<Rightarrow> node_kind option"

text \<open>main.js: the handler opens whatever it is given.\<close>

definition open_directory_main :: handler where
  "open_directory_main dirPath = ([ShellOpenPath dirPath], Resolved (JBool True))"

text \<open>
  The repository holds a second main script, whose handler checks what it is given:
  \<open>validatePath(filePath)\<close>.
\<close>

definition main_validatePath :: "jsval \<Rightarrow> bool" where
  "main_validatePath filePath =
     (case filePath of
        JStr s \<Rightarrow>
          (if str_includes s ''..'' then False
           else if length s > 4096 then False
           else True)
      | _ \<Rightarrow> False)"

text \<open>The handler checks the path, then that it exists and is a directory.\<close>

definition open_directory_checked :: "filesystem \<Rightarrow> handler" where
  "open_directory_checked fs dirPath =
     (if \<not> main_validatePath dirPath then ([], Resolved (JBool False))
      else (case dirPath of
              JStr s \<Rightarrow>
                (case fs s of
                   None \<Rightarrow> ([], Resolved (JBool False))
                 | Some NotDirectory \<Rightarrow> ([], Resolved (JBool False))
                 | Some Directory \<Rightarrow> ([ShellOpenPath dirPath], Resolved (JBool True)))
            | _ \<Rightarrow> ([], Resolved (JBool False))))"

section \<open>ProcessContext: the state of the provider\<close>

text \<open>
  An entry of the log. The timestamp (and, in App.js, the id) is read from the clock and is
  left out.
\<close>

record log_entry =
  message :: template
  type :: string

text \<open>A call of \<open>fetch\<close>: the URL, the method, the headers and the object given to \<open>JSON.stringify\<close>.\<close>

record request =
  url :: template
  http_method :: string
  headers :: "(string \<times> string) list"
  body :: "obj option"

text \<open>An interval started with \<open>setInterval\<close>: its handle, the job its callback polls, its delay.\<close>

record timer =
  timer_id :: nat
  timer_job :: jsval
  delay_ms :: nat

text \<open>
  The \<open>useState\<close> cells of \<open>ProcessProvider\<close>, with the trace of the \<open>fetch\<close> calls made,
  the intervals that are running, and the callbacks of intervals that are awaiting the
  answer to their \<open>fetch\<close>.
\<close>

record pstate =
  inputPath :: string
  outputPath :: string
  forceUpdate :: bool
  outputPattern :: string
  lyricsSource :: string
  tagFallback :: bool
  apiKey :: string
  processing :: bool
  logs :: "log_entry list"
  jobs :: "obj list"
  requests :: "request list"
  timers :: "timer list"
  next_timer :: nat
  in_flight :: "timer list"

definition initial_pstate :: pstate where
  "initial_pstate =
     \<lparr>inputPath = [], outputPath = [], forceUpdate = False,
      outputPattern = ''{artist}/{year} - {album}/{track:02d} - {title}'',
      lyricsSource = ''genius'', tagFallback = True, apiKey = [],
      processing = False, logs = [], jobs = [], requests = [], timers = [], next_timer = 0,
      in_flight = []\<rparr>"

text \<open>
  What awaiting \<open>fetch\<close> and then \<open>response.json()\<close> gives: an exception with its message,
  or the parsed body. Every endpoint of the API answers with a JSON object.
\<close>

datatype outcome =
    Threw string
  | Body obj

definition addLog :: "template \<Rightarrow> string \<Rightarrow> pstate \<Rightarrow> pstate" where
  "addLog msg ty st = st\<lparr>logs := logs st @ [\<lparr>message = msg, type = ty\<rparr>]\<rparr>"

definition setProcessing :: "bool \<Rightarrow> pstate \<Rightarrow> pstate" where
  "setProcessing b st = st\<lparr>processing := b\<rparr>"

definition setJobs :: "(obj list \<Rightarrow> obj list) \<Rightarrow> pstate \<Rightarrow> pstate" where
  "setJobs f st = st\<lparr>jobs := f (jobs st)\<rparr>"

definition fetch :: "request \<Rightarrow> pstate \<Rightarrow> pstate" where
  "fetch r st = st\<lparr>requests := requests st @ [r]\<rparr>"

definition setInterval :: "jsval \<Rightarrow> nat \<Rightarrow> pstate \<Rightarrow> pstate" where
  "setInterval job ms st =
     st\<lparr>timers := timers st @ [\<lparr>timer_id = next_timer st, timer_job = job, delay_ms = ms\<rparr>],
        next_timer := Suc (next_timer st)\<rparr>"

definition clearInterval :: "nat \<Rightarrow> pstate \<Rightarrow> pstate" where
  "clearInterval h st = st\<lparr>timers := filter (\<lambda>t. timer_id t \<noteq> h) (timers st)\<rparr>"

subsection \<open>pollJobStatus\<close>

text \<open>\<open>pollJobStatus(jobId)\<close> starts the interval and returns.\<close>

definition pollJobStatus :: "jsval \<Rightarrow> pstate \<Rightarrow> pstate" where
  "pollJobStatus jobId st = setInterval jobId 1000 st"

text \<open>The updater given to \<open>setJobs\<close> when a status has been fetched.\<close>

definition merge_status :: "jsval \<Rightarrow> obj \<Rightarrow> obj list \<Rightarrow> obj list" where
  "merge_status jobId data prev =
     map (\<lambda>job. if strict_eq (get job ''job_id'') jobId then spread job data else job) prev"

text \<open>
  The interval's callback is asynchronous. Its first part runs when the interval fires:
  it calls \<open>fetch\<close> and is then in flight, awaiting the answer. The interval does not wait
  for it and may fire again in the meantime.
\<close>

definition poll_fire :: "timer \<Rightarrow> pstate \<Rightarrow> pstate" where
  "poll_fire t st =
     (fetch \<lparr>url = [JStr ''http://localhost:8000/status/'', timer_job t],
             http_method = ''GET'', headers = [], body = None\<rparr> st)
       \<lparr>in_flight := in_flight st @ [t]\<rparr>"

text \<open>
  Its second part runs when the answer of a callback in flight has come, from there to the
  end of the \<open>try\<close> statement; by then the interval may have been cleared already.
\<close>

definition poll_settle :: "timer \<Rightarrow> outcome \<Rightarrow> pstate \<Rightarrow> pstate" where
  "poll_settle t resp st =
     (let jobId = timer_job t;
          st1 = st\<lparr>in_flight := remove1 t (in_flight st)\<rparr>
      in case resp of
           Threw msg \<Rightarrow>
             clearInterval (timer_id t)
               (addLog [JStr ''Error polling job '', jobId, JStr '': '', JStr msg] ''error'' st1)
         | Body data \<Rightarrow>
             (let st2 = setJobs (merge_status jobId data) st1
              in if get data ''status'' = JStr ''completed'' \<or> get data ''status'' = JStr ''failed''
                 then addLog [JStr ''Job '', jobId, JStr '' '', get data ''status'']
                        (if get data ''status'' = JStr ''completed'' then ''success'' else ''error'')
                        (clearInterval (timer_id t) st2)
                 else st2))"


subsection \<open>startProcessing\<close>

text \<open>The object \<open>startProcessing\<close> sends to \<open>/process_directory\<close>.\<close>

definition process_body :: "pstate \<Rightarrow> obj" where
  "process_body st =
     [(''input_path'', JStr (inputPath st)),
      (''output_path'', JStr (outputPath st)),
      (''force_update'', JBool (forceUpdate st)),
      (''output_pattern'', JStr (outputPattern st)),
      (''lyrics_source'', JStr (lyricsSource st)),
      (''tag_fallback'', JBool (tagFallback st)),
      (''api_key'', JStr (apiKey st))]"

definition startProcessing :: "outcome \<Rightarrow> pstate \<Rightarrow> pstate" where
  "startProcessing resp st =
     (if inputPath st = [] \<or> outputPath st = [] then
        addLog [JStr ''Input and output paths are required''] ''error'' st
      else
        (let st1 = addLog [JStr ''Processing started: '', JStr (inputPath st), JStr '' -> '',
                           JStr (outputPath st)] ''info'' (setProcessing True st);
             st2 = fetch \<lparr>url = [JStr ''http://localhost:8000/process_directory''],
                          http_method = ''POST'',
                          headers = [(''Content-Type'', ''application/json'')],
                          body = Some (process_body st)\<rparr> st1;
             st3 = (case resp of
                      Threw msg \<Rightarrow> addLog [JStr ''Error: '', JStr msg] ''error'' st2
                    | Body data \<Rightarrow>
                        if truthy (get data ''job_id'') then
                          pollJobStatus (get data ''job_id'')
                            (addLog [JStr ''Job created: '', get data ''job_id''] ''info''
                               (setJobs (\<lambda>prev. prev @ [data]) st2))
                        else addLog [JStr ''Failed to create job''] ''error'' st2)
         in setProcessing False st3))"

subsection \<open>validateSetup\<close>

text \<open>
  The \<open>try\<close> block: the object returned, or the message of the exception that leaves the
  block, with the state reached. The object returned is the parsed body itself.
\<close>

definition validateSetup_try :: "outcome \<Rightarrow> pstate \<Rightarrow> (string + obj) \<times> pstate" where
  "validateSetup_try resp st =
     (let st1 = fetch \<lparr>url = [JStr ''http://localhost:8000/validate_setup?api_key='', JStr (apiKey st)],
                       http_method = ''GET'', headers = [], body = None\<rparr> st
      in case resp of
           Threw msg \<Rightarrow> (Inl msg, st1)
         | Body data \<Rightarrow>
             if truthy (get data ''valid'') then
               (Inr data, addLog [JStr ''Setup validation successful''] ''success'' st1)
             else
               (case Object_entries (get data ''validations'') of
                  Inl msg \<Rightarrow> (Inl msg, st1)
                | Inr entries \<Rightarrow>
                    (Inr data,
                     fold (\<lambda>(key, valid) s.
                             if \<not> truthy valid
                             then addLog [JStr ''Validation failed for '', JStr key] ''error'' s
                             else s) entries st1)))"

text \<open>
  The whole function, \<open>catch\<close> included: \<open>Inl\<close> would be an exception that reaches the
  caller, \<open>Inr\<close> is the object returned.
\<close>

definition validateSetup :: "outcome \<Rightarrow> pstate \<Rightarrow> (string + obj) \<times> pstate" where
  "validateSetup resp st =
     (case validateSetup_try resp st of
        (Inl msg, st') \<Rightarrow>
          (Inr [(''valid'', JBool False)],
           addLog [JStr ''Error validating setup: '', JStr msg] ''error'' st')
      | (Inr v, st') \<Rightarrow> (Inr v, st'))"

text \<open>
  Modelled from the spec: the body of \<open>GET /validate_setup\<close>, \<open>{valid, validations:
  {dependency_name: bool, ...}}\<close>; the server that builds it is not among the sources. The
  first argument is the reference of the object of validations.
\<close>

definition validate_response :: "nat \<Rightarrow> bool \<Rightarrow> (string \<times> bool) list \<Rightarrow> obj" where
  "validate_response r v vs =
     [(''valid'', JBool v), (''validations'', JObj r (map (\<lambda>(k, b). (k, JBool b)) vs))]"

subsection \<open>The other functions of the provider, and its runs\<close>

text \<open>What awaiting a directory dialog gives: an exception, or the list of paths chosen.\<close>

datatype picked =
    PickThrew string
  | Picked "string list"

definition selectInputPath :: "picked \<Rightarrow> pstate \<Rightarrow> pstate" where
  "selectInputPath r st =
     (case r of
        PickThrew msg \<Rightarrow> addLog [JStr ''Error selecting input path: '', JStr msg] ''error'' st
      | Picked [] \<Rightarrow> st
      | Picked (p # ps) \<Rightarrow> addLog [JStr ''Input path set: '', JStr p] ''info'' (st\<lparr>inputPath := p\<rparr>))"

definition selectOutputPath :: "picked \<Rightarrow> pstate \<Rightarrow> pstate" where
  "selectOutputPath r st =
     (case r of
        PickThrew msg \<Rightarrow> addLog [JStr ''Error selecting output path: '', JStr msg] ''error'' st
      | Picked [] \<Rightarrow> st
      | Picked (p # ps) \<Rightarrow> addLog [JStr ''Output path set: '', JStr p] ''info'' (st\<lparr>outputPath := p\<rparr>))"

text \<open>\<open>openDirectory\<close> of the provider, given how the promise of the bridge settles.\<close>

definition context_openDirectory :: "settled \<Rightarrow> pstate \<Rightarrow> pstate" where
  "context_openDirectory r st =
     (case r of
        Rejected msg \<Rightarrow> addLog [JStr ''Error opening directory: '', JStr msg] ''error'' st
      | Resolved v \<Rightarrow> st)"

text \<open>
  What the components of the repository and the listeners of the provider do to its
  state, each call taken from its start to its return: ProcessForm starts the processing,
  opens the dialogs and sets the options, Settings sets the key and validates, LogViewer
  empties the log, JobList opens a directory, a running interval fires, the answer of a
  callback in flight comes, and the Python process writes a line, an error or exits.
\<close>

datatype event =
    StartProcessing outcome
  | SelectInputPath picked
  | SelectOutputPath picked
  | SetForceUpdate bool
  | SetOutputPattern string
  | SetLyricsSource string
  | SetTagFallback bool
  | SetApiKey string
  | ValidateSetup outcome
  | ClearLogs
  | OpenDirectory settled
  | IntervalFires timer
  | StatusSettles timer outcome
  | PythonLog jsval
  | PythonError jsval
  | PythonExit jsval

fun provider_step :: "event \<Rightarrow> pstate \<Rightarrow> pstate" where
  "provider_step (StartProcessing r) st = startProcessing r st"
| "provider_step (SelectInputPath r) st = selectInputPath r st"
| "provider_step (SelectOutputPath r) st = selectOutputPath r st"
| "provider_step (SetForceUpdate b) st = st\<lparr>forceUpdate := b\<rparr>"
| "provider_step (SetOutputPattern s) st = st\<lparr>outputPattern := s\<rparr>"
| "provider_step (SetLyricsSource s) st = st\<lparr>lyricsSource := s\<rparr>"
| "provider_step (SetTagFallback b) st = st\<lparr>tagFallback := b\<rparr>"
| "provider_step (SetApiKey s) st = st\<lparr>apiKey := s\<rparr>"
| "provider_step (ValidateSetup r) st = snd (validateSetup r st)"
| "provider_step ClearLogs st = st\<lparr>logs := []\<rparr>"
| "provider_step (OpenDirectory r) st = context_openDirectory r st"
| "provider_step (IntervalFires t) st = (if t \<in> set (timers st) then poll_fire t st else st)"
| "provider_step (StatusSettles t r) st =
     (if t \<in> set (in_flight st) then poll_settle t r st else st)"
| "provider_step (PythonLog d) st = addLog [d] ''info'' st"
| "provider_step (PythonError d) st = addLog [d] ''error'' st"
| "provider_step (PythonExit code) st =
     addLog [JStr ''Python process exited with code '', code]
       (if strict_eq code (JNum 0) then ''info'' else ''error'') st"

definition provider_run :: "event list \<Rightarrow> pstate" where
  "provider_run evs = fold provider_step evs initial_pstate"


section \<open>App.js\<close>

record app_state =
  app_inputPath :: string
  app_outputPath :: string
  app_logs :: "log_entry list"
  isProcessing :: bool
  apiStatus :: string
  app_requests :: "request list"

definition app_addLog :: "template \<Rightarrow> string \<Rightarrow> app_state \<Rightarrow> app_state" where
  "app_addLog msg ty st = st\<lparr>app_logs := app_logs st @ [\<lparr>message = msg, type = ty\<rparr>]\<rparr>"

definition setIsProcessing :: "bool \<Rightarrow> app_state \<Rightarrow> app_state" where
  "setIsProcessing b st = st\<lparr>isProcessing := b\<rparr>"

definition app_fetch :: "request \<Rightarrow> app_state \<Rightarrow> app_state" where
  "app_fetch r st = st\<lparr>app_requests := app_requests st @ [r]\<rparr>"

text \<open>The object \<open>handleProcess\<close> sends to \<open>/process_directory\<close>.\<close>

definition handle_body :: "app_state \<Rightarrow> obj" where
  "handle_body st =
     [(''input_path'', JStr (app_inputPath st)),
      (''output_path'', JStr (app_outputPath st)),
      (''force_update'', JBool False),
      (''lyrics_source'', JStr ''genius'')]"

definition handleProcess :: "outcome \<Rightarrow> app_state \<Rightarrow> app_state" where
  "handleProcess resp st =
     (if app_inputPath st = [] \<or> app_outputPath st = [] then
        app_addLog [JStr ''Please select input and output directories first''] ''error'' st
      else
        (let st1 = app_addLog [JStr ''Starting processing...''] ''info'' (setIsProcessing True st);
             st2 = app_fetch \<lparr>url = [JStr ''http://localhost:8000/process_directory''],
                              http_method = ''POST'',
                              headers = [(''Content-Type'', ''application/json'')],
                              body = Some (handle_body st)\<rparr> st1;
             st3 = (case resp of
                      Threw msg \<Rightarrow> app_addLog [JStr ''Error processing files: '', JStr msg] ''error'' st2
                    | Body data \<Rightarrow>
                        if truthy (get data ''job_id'') then
                          app_addLog [JStr ''Processing job started: '', get data ''job_id''] ''success'' st2
                        else app_addLog [JStr ''Failed to start processing job''] ''error'' st2)
         in setIsProcessing False st3))"

text \<open>The names of the properties of a request's body; none when there is no body.\<close>

definition body_fields :: "request \<Rightarrow> string list" where
  "body_fields r = (case body r of None \<Rightarrow> [] | Some ob \<Rightarrow> map fst ob)"

subsection \<open>The other functions of App, and its runs\<close>

definition initial_app_state :: app_state where
  "initial_app_state =
     \<lparr>app_inputPath = [], app_outputPath = [], app_logs = [], isProcessing = False,
      apiStatus = ''unknown'', app_requests = []\<rparr>"

definition checkApiConnection :: "outcome \<Rightarrow> app_state \<Rightarrow> app_state" where
  "checkApiConnection resp st =
     (let st1 = app_addLog [JStr ''Checking Python API connection...''] ''info'' st;
          st2 = st1\<lparr>apiStatus := ''checking''\<rparr>;
          st3 = app_fetch \<lparr>url = [JStr ''http://localhost:8000/config''], http_method = ''GET'',
                           headers = [], body = None\<rparr> st2
      in case resp of
           Threw msg \<Rightarrow>
             (app_addLog [JStr ''API connection failed: '', JStr msg] ''error'' st3)
               \<lparr>apiStatus := ''error''\<rparr>
         | Body data \<Rightarrow>
             (app_addLog [JStr ''API connection successful! Tinfoil version: '',
                          get data ''version''] ''success'' st3)
               \<lparr>apiStatus := ''connected''\<rparr>)"

definition handleSelectInput :: "picked \<Rightarrow> app_state \<Rightarrow> app_state" where
  "handleSelectInput r st =
     (case r of
        PickThrew msg \<Rightarrow>
          app_addLog [JStr ''Error selecting input directory: '', JStr msg] ''error'' st
      | Picked [] \<Rightarrow> st
      | Picked (p # ps) \<Rightarrow>
          app_addLog [JStr ''Selected input directory: '', JStr p] ''info''
            (st\<lparr>app_inputPath := p\<rparr>))"

definition handleSelectOutput :: "picked \<Rightarrow> app_state \<Rightarrow> app_state" where
  "handleSelectOutput r st =
     (case r of
        PickThrew msg \<Rightarrow>
          app_addLog [JStr ''Error selecting output directory: '', JStr msg] ''error'' st
      | Picked [] \<Rightarrow> st
      | Picked (p # ps) \<Rightarrow>
          app_addLog [JStr ''Selected output directory: '', JStr p] ''info''
            (st\<lparr>app_outputPath := p\<rparr>))"

text \<open>
  What happens to the state of App, each call taken from its start to its return: the
  effect run at mounting, the three buttons, the retry of the connection check, the
  clearing of the log, and the lines and errors of the Python process.
\<close>

datatype app_event =
    Mounted outcome
  | HandleProcess outcome
  | HandleSelectInput picked
  | HandleSelectOutput picked
  | Retry outcome
  | AppClearLogs
  | AppPythonLog jsval
  | AppPythonError jsval

fun app_step :: "app_event \<Rightarrow> app_state \<Rightarrow> app_state" where
  "app_step (Mounted r) st =
     checkApiConnection r (app_addLog [JStr ''Application initialized''] ''info'' st)"
| "app_step (HandleProcess r) st = handleProcess r st"
| "app_step (HandleSelectInput r) st = handleSelectInput r st"
| "app_step (HandleSelectOutput r) st = handleSelectOutput r st"
| "app_step (Retry r) st = checkApiConnection r st"
| "app_step AppClearLogs st = st\<lparr>app_logs := []\<rparr>"
| "app_step (AppPythonLog d) st = app_addLog [JStr ''Python: '', d] ''info'' st"
| "app_step (AppPythonError d) st = app_addLog [JStr ''Python: '', d] ''error'' st"

definition app_run :: "app_event list \<Rightarrow> app_state" where
  "app_run evs = fold app_step evs initial_app_state"

section \<open>Components\<close>

subsection \<open>ProgressBar and the progress cell of JobList\<close>

text \<open>
  What is rendered for a progress: the class of the bar, its width in percent, and the
  number shown in front of the percent sign. The progress is a double and is given by its
  exact value; \<open>progress * 100\<close> is a product of doubles.
\<close>

record progress_view =
  bar_class :: template
  bar_width :: rat
  shown :: int

definition barColor :: "jsval \<Rightarrow> string" where
  "barColor status =
     (if status = JStr ''completed'' then ''bg-green-600''
      else if status = JStr ''failed'' then ''bg-red-600''
      else ''bg-blue-600'')"

text \<open>ProgressBar.js: the width of the bar is the rounded percentage.\<close>

definition ProgressBar :: "rat \<Rightarrow> jsval \<Rightarrow> progress_view" where
  "ProgressBar progress status =
     (let percentage = Math_round (double_times progress 100)
      in \<lparr>bar_class = [JStr ''h-2.5 rounded-full '', JStr (barColor status)],
          bar_width = of_int percentage,
          shown = percentage\<rparr>)"

text \<open>
  JobList: the third cell of the row of a job whose \<open>status\<close> and \<open>progress\<close> are given;
  the width of the bar is \<open>job.progress * 100\<close>.
\<close>

definition JobList_progress :: "rat \<Rightarrow> jsval \<Rightarrow> progress_view" where
  "JobList_progress progress status =
     \<lparr>bar_class = [JStr ''h-2.5 rounded-full '', JStr (barColor status)],
      bar_width = double_times progress 100,
      shown = Math_round (double_times progress 100)\<rparr>"

text \<open>JobList: the classes of the status cell, chosen by a chain of comparisons.\<close>

definition JobList_status_class :: "jsval \<Rightarrow> string" where
  "JobList_status_class status =
     (if status = JStr ''completed'' then ''bg-green-100 text-green-800''
      else if status = JStr ''failed'' then ''bg-red-100 text-red-800''
      else if status = JStr ''processing'' then ''bg-blue-100 text-blue-800''
      else ''bg-yellow-100 text-yellow-800'')"

subsection \<open>StatusBadge\<close>

text \<open>The properties every object literal inherits from \<open>Object.prototype\<close>.\<close>

definition Object_prototype_keys :: "string list" where
  "Object_prototype_keys =
     [''constructor'', ''__defineGetter__'', ''__defineSetter__'', ''hasOwnProperty'',
      ''__lookupGetter__'', ''__lookupSetter__'', ''isPrototypeOf'', ''propertyIsEnumerable'',
      ''toString'', ''valueOf'', ''__proto__'', ''toLocaleString'']"

text \<open>\<open>Object.prototype\<close> itself: an object with no enumerable property of its own.\<close>

definition Object_prototype :: jsval where
  "Object_prototype = JObj 0 []"

text \<open>
  \<open>o[k]\<close> for any key: the own property; failing that the inherited one, which is the
  prototype itself for \<open>__proto__\<close> and a function for the others; failing that
  \<open>undefined\<close>. It agrees with \<open>get\<close> on every key that is not inherited.
\<close>

definition lookup :: "obj \<Rightarrow> string \<Rightarrow> jsval" where
  "lookup ob k =
     (case map_of ob k of
        Some v \<Rightarrow> v
      | None \<Rightarrow>
          if k = ''__proto__'' then Object_prototype
          else if k \<in> set Object_prototype_keys then JFun 0
          else JUndefined)"

text \<open>
  \<open>v.bg\<close> and \<open>v.text\<close>: neither a function nor a prototype has a property of these names.
\<close>

definition member :: "jsval \<Rightarrow> string \<Rightarrow> jsval" where
  "member v k = (case v of JObj r fs \<Rightarrow> lookup fs k | _ \<Rightarrow> JUndefined)"

text \<open>An object literal \<open>{bg: b, text: t}\<close>, with its reference.\<close>

definition scheme :: "nat \<Rightarrow> string \<Rightarrow> string \<Rightarrow> jsval" where
  "scheme r b t = JObj r [(''bg'', JStr b), (''text'', JStr t)]"

definition STATUS_COLORS :: obj where
  "STATUS_COLORS =
     [(''pending'', scheme 1 ''bg-yellow-100'' ''text-yellow-800''),
      (''processing'', scheme 2 ''bg-blue-100'' ''text-blue-800''),
      (''completed'', scheme 3 ''bg-green-100'' ''text-green-800''),
      (''failed'', scheme 4 ''bg-red-100'' ''text-red-800'')]"

text \<open>The \<open>span\<close> that \<open>StatusBadge\<close> renders: its class and its content.\<close>

record badge =
  className :: template
  children :: jsval

definition badge_with :: "jsval \<Rightarrow> string \<Rightarrow> badge" where
  "badge_with colors status =
     \<lparr>className = [JStr ''inline-flex items-center px-2.5 py-0.5 rounded-full text-xs font-medium '',
                   member colors ''bg'', JStr '' '', member colors ''text''],
      children = JStr status\<rparr>"

definition StatusBadge :: "string \<Rightarrow> badge" where
  "StatusBadge status =
     (let colors = (if truthy (lookup STATUS_COLORS status) then lookup STATUS_COLORS status
                    else lookup STATUS_COLORS ''pending'')
      in badge_with colors status)"

section \<open>Auxiliary facts\<close>

lemma fold_keeps:
  assumes "\<And>x s. g (f x s) = g s"
  shows "g (fold f xs s) = g s"
  by (induction xs arbitrary: s) (simp_all add: assms)

section \<open>Requests to /process_directory\<close>

lemma requests_startProcessing:
  "requests (startProcessing resp st) =
     (if inputPath st = [] \<or> outputPath st = [] then requests st
      else requests st @ [\<lparr>url = [JStr ''http://localhost:8000/process_directory''],
                            http_method = ''POST'',
                            headers = [(''Content-Type'', ''application/json'')],
                            body = Some (process_body st)\<rparr>])"
  by (cases resp)
     (simp_all add: startProcessing_def addLog_def setProcessing_def fetch_def setJobs_def
        pollJobStatus_def setInterval_def Let_def)

lemma requests_handleProcess:
  "app_requests (handleProcess resp a) =
     (if app_inputPath a = [] \<or> app_outputPath a = [] then app_requests a
      else app_requests a @ [\<lparr>url = [JStr ''http://localhost:8000/process_directory''],
                                http_method = ''POST'',
                                headers = [(''Content-Type'', ''application/json'')],
                                body = Some (handle_body a)\<rparr>])"
  by (cases resp)
     (simp_all add: handleProcess_def app_addLog_def setIsProcessing_def app_fetch_def Let_def)

text \<open>
  C1, as amended. A call of \<open>startProcessing\<close> makes no request or exactly one, a POST to
  \<open>/process_directory\<close> whose body has the seven fields \<open>input_path\<close>, \<open>output_path\<close>,
  \<open>force_update\<close>, \<open>output_pattern\<close>, \<open>lyrics_source\<close>, \<open>tag_fallback\<close>, \<open>api_key\<close> and no
  others. A call of \<open>handleProcess\<close> of App makes no request or exactly one, a POST to the
  same URL whose body has four fields only: the two paths, \<open>force_update\<close> set to false and
  \<open>lyrics_source\<close> set to genius.
\<close>

theorem process_directory_bodies:
  "(requests (startProcessing resp st) = requests st \<or>
    (\<exists>r. requests (startProcessing resp st) = requests st @ [r] \<and>
         url r = [JStr ''http://localhost:8000/process_directory''] \<and>
         http_method r = ''POST'' \<and>
         body_fields r = [''input_path'', ''output_path'', ''force_update'', ''output_pattern'',
                          ''lyrics_source'', ''tag_fallback'', ''api_key''])) \<and>
   (app_requests (handleProcess resp a) = app_requests a \<or>
    (\<exists>r. app_requests (handleProcess resp a) = app_requests a @ [r] \<and>
         url r = [JStr ''http://localhost:8000/process_directory''] \<and>
         http_method r = ''POST'' \<and>
         body r = Some [(''input_path'', JStr (app_inputPath a)),
                        (''output_path'', JStr (app_outputPath a)),
                        (''force_update'', JBool False),
                        (''lyrics_source'', JStr ''genius'')]))"
  by (simp add: requests_startProcessing requests_handleProcess body_fields_def
      process_body_def handle_body_def)

text \<open>
  With both paths chosen, the one request of \<open>startProcessing\<close> carries the seven fields.
\<close>

theorem process_directory_bodies_witness:
  "map body_fields
     (requests (startProcessing (Body [(''job_id'', JStr ''j1'')])
        (initial_pstate\<lparr>inputPath := ''/in'', outputPath := ''/out''\<rparr>)))
   = [[''input_path'', ''output_path'', ''force_update'', ''output_pattern'',
       ''lyrics_source'', ''tag_fallback'', ''api_key'']]"
  using process_directory_bodies
          [of "Body [(''job_id'', JStr ''j1'')]"
              "initial_pstate\<lparr>inputPath := ''/in'', outputPath := ''/out''\<rparr>"]
  by (auto simp: initial_pstate_def requests_startProcessing body_fields_def process_body_def)

text \<open>
  C1 as stated fails for App: with both paths chosen, the body that \<open>handleProcess\<close> sends
  has four fields; \<open>output_pattern\<close>, \<open>tag_fallback\<close> and \<open>api_key\<close> are not among them.
\<close>

theorem handleProcess_body_counterexample:
  "map body_fields
     (app_requests (handleProcess (Body [(''job_id'', JStr ''j1'')])
        \<lparr>app_inputPath = ''/in'', app_outputPath = ''/out'', app_logs = [],
         isProcessing = False, apiStatus = ''connected'', app_requests = []\<rparr>))
   = [[''input_path'', ''output_path'', ''force_update'', ''lyrics_source'']]"
  by (simp add: requests_handleProcess body_fields_def handle_body_def)

section \<open>Paths refused by openDirectory\<close>

text \<open>
  C2. A path that is not a string, or contains \<open>..\<close>, or is longer than 4096, is refused
  by \<open>openDirectory\<close> of preload.js with a rejected promise and before any message is sent:
  whatever handler the main process has registered, it is not reached, and nothing is given
  to \<open>shell.openPath\<close>. The handler of the second main script refuses such a path on its
  own: reached through the preload script that forwards every call, it opens nothing and
  returns false.
\<close>

theorem openDirectory_refuses:
  assumes "\<not> is_string path \<or>
           (\<exists>s. path = JStr s \<and> (str_includes s ''..'' \<or> 4096 < length s))"
  shows "openDirectory h path = ([], Rejected ''Invalid path'') \<and>
         open_directory_checked fs path = ([], Resolved (JBool False)) \<and>
         openDirectory_plain (open_directory_checked fs) path =
           ([IpcInvoke ''open-directory'' path], Resolved (JBool False))"
proof -
  have a: "\<not> validatePath path"
    using assms by (cases path) (auto simp: validatePath_def validateString_def)
  have b: "\<not> main_validatePath path"
    using assms by (cases path) (auto simp: main_validatePath_def)
  show ?thesis
    using a b by (simp add: openDirectory_def open_directory_checked_def openDirectory_plain_def)
qed

theorem openDirectory_refuses_witness:
  "str_includes ''../etc'' ''..'' \<and>
   openDirectory open_directory_main (JStr ''../etc'') = ([], Rejected ''Invalid path'') \<and>
   open_directory_checked (\<lambda>p. Some Directory) (JStr ''../etc'') = ([], Resolved (JBool False))"
  using openDirectory_refuses [of "JStr ''../etc''" open_directory_main "\<lambda>p. Some Directory"]
  by simp

section \<open>The polling loop\<close>


















section \<open>Merging a fetched status into the jobs list\<close>

lemma strict_eq_string: "strict_eq (JStr a) v \<longleftrightarrow> v = JStr a"
  by (cases v) auto

lemma strict_eq_array: "strict_eq (JArr r xs) v \<longleftrightarrow> (\<exists>ys. v = JArr r ys)"
  by (cases v) auto

text \<open>
  C4. When the callback of the poller of job \<open>J\<close> merges a fetched body into the jobs list,
  the list keeps its length, every entry whose \<open>job_id\<close> is not \<open>J\<close> stays the same object
  at the same position, and every entry whose \<open>job_id\<close> is \<open>J\<close> becomes that entry with the
  fields of the body written over it. Being \<open>J\<close> is \<open>===\<close>: the same string, or one and the
  same array whatever it holds. A fetch that throws, and the firing of the interval, leave
  the list as it is.
\<close>

theorem merge_status_frame:
  "length (merge_status J data js) = length js \<and>
   (\<forall>i<length js. \<not> strict_eq (get (js ! i) ''job_id'') J \<longrightarrow>
        merge_status J data js ! i = js ! i) \<and>
   (\<forall>i<length js. strict_eq (get (js ! i) ''job_id'') J \<longrightarrow>
        merge_status J data js ! i = spread (js ! i) data) \<and>
   (strict_eq (JStr a) v \<longleftrightarrow> v = JStr a) \<and>
   (strict_eq (JArr r xs) v \<longleftrightarrow> (\<exists>ys. v = JArr r ys)) \<and>
   jobs (poll_settle t (Body data) st) = merge_status (timer_job t) data (jobs st) \<and>
   jobs (poll_settle t (Threw msg) st) = jobs st \<and>
   jobs (poll_fire t st) = jobs st"
proof (intro conjI allI impI)
  show "length (merge_status J data js) = length js"
    by (simp add: merge_status_def)
  show "merge_status J data js ! i = js ! i"
    if "i < length js" and "\<not> strict_eq (get (js ! i) ''job_id'') J" for i
    using that by (simp add: merge_status_def)
  show "merge_status J data js ! i = spread (js ! i) data"
    if "i < length js" and "strict_eq (get (js ! i) ''job_id'') J" for i
    using that by (simp add: merge_status_def)
  show "strict_eq (JStr a) v \<longleftrightarrow> v = JStr a"
    by (rule strict_eq_string)
  show "strict_eq (JArr r xs) v \<longleftrightarrow> (\<exists>ys. v = JArr r ys)"
    by (rule strict_eq_array)
  show "jobs (poll_settle t (Body data) st) = merge_status (timer_job t) data (jobs st)"
    by (simp add: poll_settle_def Let_def setJobs_def addLog_def clearInterval_def)
  show "jobs (poll_settle t (Threw msg) st) = jobs st"
    by (simp add: poll_settle_def Let_def addLog_def clearInterval_def)
  show "jobs (poll_fire t st) = jobs st"
    by (simp add: poll_fire_def fetch_def)
qed

text \<open>
  Three jobs: one with the identifier a, and two whose identifiers are distinct arrays of
  the same content. A status fetched by the poller of the first array leaves the job a and
  the job of the other array untouched, and writes the body over the job of its own array.
\<close>

theorem merge_status_frame_witness:
  "\<not> strict_eq (get [(''job_id'', JStr ''a'')] ''job_id'') (JArr 7 [JStr ''x'']) \<and>
   strict_eq (get [(''job_id'', JArr 7 [JStr ''x''])] ''job_id'') (JArr 7 [JStr ''x'']) \<and>
   \<not> strict_eq (get [(''job_id'', JArr 8 [JStr ''x''])] ''job_id'') (JArr 7 [JStr ''x'']) \<and>
   merge_status (JArr 7 [JStr ''x''])
     [(''job_id'', JArr 9 [JStr ''x'']), (''status'', JStr ''processing'')]
     [[(''job_id'', JStr ''a'')], [(''job_id'', JArr 7 [JStr ''x''])],
      [(''job_id'', JArr 8 [JStr ''x''])]]
   = [[(''job_id'', JStr ''a'')],
      [(''job_id'', JArr 9 [JStr ''x'']), (''status'', JStr ''processing'')],
      [(''job_id'', JArr 8 [JStr ''x''])]]"
proof -
  let ?J = "JArr 7 [JStr ''x'']"
  let ?d = "[(''job_id'', JArr 9 [JStr ''x'']), (''status'', JStr ''processing'')]"
  let ?js = "[[(''job_id'', JStr ''a'')], [(''job_id'', JArr 7 [JStr ''x''])],
              [(''job_id'', JArr 8 [JStr ''x''])]]"
  note h = merge_status_frame [of ?J ?d ?js]
  have e0: "\<not> strict_eq (get (?js ! 0) ''job_id'') ?J"
    and e1: "strict_eq (get (?js ! 1) ''job_id'') ?J"
    and e2: "\<not> strict_eq (get (?js ! 2) ''job_id'') ?J"
    by (simp_all add: get_def)
  have l: "length (merge_status ?J ?d ?js) = 3"
    using h by simp
  have a: "merge_status ?J ?d ?js ! 0 = ?js ! 0"
    using h e0 by simp
  have b: "merge_status ?J ?d ?js ! 1 = spread (?js ! 1) ?d"
    using h e1 by simp
  have c: "merge_status ?J ?d ?js ! 2 = ?js ! 2"
    using h e2 by simp
  have k: "index_of_key ''job_id'' = None" "index_of_key ''status'' = None"
    by (simp_all add: index_of_key_def)
  have s: "spread (?js ! 1) ?d = ?d"
    by (simp add: spread_def own_entries_def k)
  obtain x y z where m: "merge_status ?J ?d ?js = [x, y, z]"
    using l by (auto simp: numeral_3_eq_3 length_Suc_conv)
  have "x = ?js ! 0" using a m by simp
  moreover have "y = ?d" using b s m by simp
  moreover have "z = ?js ! 2" using c m by simp
  ultimately have "merge_status ?J ?d ?js = [?js ! 0, ?d, ?js ! 2]"
    using m by simp
  then show ?thesis
    using e0 e1 e2 by simp
qed

section \<open>The answer to /process_directory\<close>

text \<open>
  C5, as amended. With both paths chosen and a body parsed from the answer: if the
  \<open>job_id\<close> of the body is truthy (present, and not null, false, zero or the empty string),
  the body is appended to the jobs list as one new last entry, the entries before it are
  unchanged, and an interval polling that \<open>job_id\<close> is started; otherwise the jobs list is
  unchanged, no interval is started, and an error entry is appended to the log.
\<close>

theorem startProcessing_job_created:
  assumes "inputPath st \<noteq> []" and "outputPath st \<noteq> []"
  shows "(truthy (get data ''job_id'') \<longrightarrow>
            jobs (startProcessing (Body data) st) = jobs st @ [data] \<and>
            timers (startProcessing (Body data) st) =
              timers st @ [\<lparr>timer_id = next_timer st, timer_job = get data ''job_id'',
                             delay_ms = 1000\<rparr>]) \<and>
         (\<not> truthy (get data ''job_id'') \<longrightarrow>
            jobs (startProcessing (Body data) st) = jobs st \<and>
            timers (startProcessing (Body data) st) = timers st \<and>
            logs (startProcessing (Body data) st) =
              logs st @ [\<lparr>message = [JStr ''Processing started: '', JStr (inputPath st),
                                       JStr '' -> '', JStr (outputPath st)], type = ''info''\<rparr>,
                         \<lparr>message = [JStr ''Failed to create job''], type = ''error''\<rparr>])"
  using assms
  by (simp add: startProcessing_def Let_def addLog_def setProcessing_def fetch_def setJobs_def
      pollJobStatus_def setInterval_def)

text \<open>
  An answer with the identifier j1 adds the job and starts its poller; an answer without
  a \<open>job_id\<close> adds nothing.
\<close>

theorem startProcessing_job_created_witness:
  "inputPath (initial_pstate\<lparr>inputPath := ''/in'', outputPath := ''/out''\<rparr>) \<noteq> [] \<and>
   outputPath (initial_pstate\<lparr>inputPath := ''/in'', outputPath := ''/out''\<rparr>) \<noteq> [] \<and>
   jobs (startProcessing (Body [(''job_id'', JStr ''j1'')])
           (initial_pstate\<lparr>inputPath := ''/in'', outputPath := ''/out''\<rparr>))
     = [[(''job_id'', JStr ''j1'')]] \<and>
   timers (startProcessing (Body [(''job_id'', JStr ''j1'')])
           (initial_pstate\<lparr>inputPath := ''/in'', outputPath := ''/out''\<rparr>))
     = [\<lparr>timer_id = 0, timer_job = JStr ''j1'', delay_ms = 1000\<rparr>] \<and>
   jobs (startProcessing (Body [(''detail'', JStr ''no'')])
           (initial_pstate\<lparr>inputPath := ''/in'', outputPath := ''/out''\<rparr>)) = []"
  using startProcessing_job_created
          [of "initial_pstate\<lparr>inputPath := ''/in'', outputPath := ''/out''\<rparr>"
              "[(''job_id'', JStr ''j1'')]"]
        startProcessing_job_created
          [of "initial_pstate\<lparr>inputPath := ''/in'', outputPath := ''/out''\<rparr>"
              "[(''detail'', JStr ''no'')]"]
  by (simp add: initial_pstate_def get_def)

text \<open>
  C5 as stated fails where the body has a \<open>job_id\<close> field that is the empty string, or
  null: the field is there, yet no entry is appended and no interval is started.
\<close>

theorem startProcessing_job_id_counterexample:
  "map_of [(''job_id'', JStr [])] ''job_id'' = Some (JStr []) \<and>
   jobs (startProcessing (Body [(''job_id'', JStr [])])
           (initial_pstate\<lparr>inputPath := ''/in'', outputPath := ''/out''\<rparr>)) = [] \<and>
   timers (startProcessing (Body [(''job_id'', JStr [])])
           (initial_pstate\<lparr>inputPath := ''/in'', outputPath := ''/out''\<rparr>)) = [] \<and>
   map_of [(''job_id'', JNull)] ''job_id'' = Some JNull \<and>
   jobs (startProcessing (Body [(''job_id'', JNull)])
           (initial_pstate\<lparr>inputPath := ''/in'', outputPath := ''/out''\<rparr>)) = [] \<and>
   timers (startProcessing (Body [(''job_id'', JNull)])
           (initial_pstate\<lparr>inputPath := ''/in'', outputPath := ''/out''\<rparr>)) = []"
  by (simp add: startProcessing_def Let_def addLog_def setProcessing_def fetch_def setJobs_def
      pollJobStatus_def setInterval_def initial_pstate_def get_def)

section \<open>validateSetup\<close>

lemma insort_key_values:
  "insort_key f (g x) (map g xs) = map g (insort_key (\<lambda>a. f (g a)) x xs)"
  by (induction xs) simp_all

lemma sort_key_values: "sort_key f (map g xs) = map g (sort_key (\<lambda>a. f (g a)) xs)"
  by (induction xs) (simp_all add: insort_key_values)

lemma own_entries_values:
  "own_entries (map (\<lambda>(k, b). (k, g b)) vs) = map (\<lambda>(k, b). (k, g b)) (own_entries vs)"
  unfolding own_entries_def
  by (simp add: filter_map comp_def sort_key_values case_prod_unfold)

lemma logs_fold_validations:
  "logs (fold (\<lambda>(key, valid) s.
                 if \<not> truthy valid
                 then addLog [JStr ''Validation failed for '', JStr key] ''error'' s
                 else s) es st) =
   logs st @ map (\<lambda>(k, v). \<lparr>message = [JStr ''Validation failed for '', JStr k], type = ''error''\<rparr>)
               (filter (\<lambda>(k, v). \<not> truthy v) es)"
proof (induction es arbitrary: st)
  case Nil
  show ?case by simp
next
  case (Cons e es)
  obtain k v where e: "e = (k, v)" by (cases e)
  show ?case
  proof (cases "truthy v")
    case True
    then show ?thesis using Cons.IH [of st] e by simp
  next
    case False
    then show ?thesis
      using Cons.IH [of "addLog [JStr ''Validation failed for '', JStr k] ''error'' st"] e
      by (simp add: addLog_def)
  qed
qed

lemma validateSetup_threw:
  "validateSetup (Threw msg) st =
     (Inr [(''valid'', JBool False)],
      addLog [JStr ''Error validating setup: '', JStr msg] ''error''
        (fetch \<lparr>url = [JStr ''http://localhost:8000/validate_setup?api_key='', JStr (apiKey st)],
                http_method = ''GET'', headers = [], body = None\<rparr> st))"
  by (simp add: validateSetup_def validateSetup_try_def Let_def)

lemma validateSetup_valid:
  assumes "truthy (get data ''valid'')"
  shows "validateSetup (Body data) st =
     (Inr data,
      addLog [JStr ''Setup validation successful''] ''success''
        (fetch \<lparr>url = [JStr ''http://localhost:8000/validate_setup?api_key='', JStr (apiKey st)],
                http_method = ''GET'', headers = [], body = None\<rparr> st))"
  using assms by (simp add: validateSetup_def validateSetup_try_def Let_def)

lemma validateSetup_no_entries:
  assumes "\<not> truthy (get data ''valid'')"
    and "Object_entries (get data ''validations'') = Inl m"
  shows "validateSetup (Body data) st =
     (Inr [(''valid'', JBool False)],
      addLog [JStr ''Error validating setup: '', JStr m] ''error''
        (fetch \<lparr>url = [JStr ''http://localhost:8000/validate_setup?api_key='', JStr (apiKey st)],
                http_method = ''GET'', headers = [], body = None\<rparr> st))"
  using assms by (simp add: validateSetup_def validateSetup_try_def Let_def)

lemma validateSetup_entries:
  assumes "\<not> truthy (get data ''valid'')"
    and "Object_entries (get data ''validations'') = Inr es"
  shows "fst (validateSetup (Body data) st) = Inr data"
    and "logs (snd (validateSetup (Body data) st)) =
           logs st @ map (\<lambda>(k, v). \<lparr>message = [JStr ''Validation failed for '', JStr k],
                                    type = ''error''\<rparr>)
                       (filter (\<lambda>(k, v). \<not> truthy v) es)"
  using assms
  by (simp_all add: validateSetup_def validateSetup_try_def Let_def logs_fold_validations
      fetch_def)

lemma validateSetup_body_or_invalid:
  "fst (validateSetup (Body data) st) = Inr data \<or>
   fst (validateSetup (Body data) st) = Inr [(''valid'', JBool False)]"
proof (cases "truthy (get data ''valid'')")
  case True
  then show ?thesis by (simp add: validateSetup_valid)
next
  case False
  show ?thesis
  proof (cases "Object_entries (get data ''validations'')")
    case (Inl m)
    then show ?thesis using False by (simp add: validateSetup_no_entries)
  next
    case (Inr es)
    then show ?thesis using False validateSetup_entries(1) by blast
  qed
qed

lemma validateSetup_returns: "\<exists>fs. fst (validateSetup resp st) = Inr fs"
proof (cases resp)
  case (Threw msg)
  then show ?thesis by (simp add: validateSetup_threw)
next
  case (Body data)
  then show ?thesis using validateSetup_body_or_invalid [of data st] by auto
qed

lemma validateSetup_boolean:
  assumes "get data ''valid'' = JBool b"
  shows "\<exists>fs b'. fst (validateSetup (Body data) st) = Inr fs \<and> get fs ''valid'' = JBool b'"
proof -
  consider (body) "fst (validateSetup (Body data) st) = Inr data"
    | (invalid) "fst (validateSetup (Body data) st) = Inr [(''valid'', JBool False)]"
    using validateSetup_body_or_invalid [of data st] by blast
  then show ?thesis
  proof cases
    case body
    then show ?thesis using assms by blast
  next
    case invalid
    moreover have "get [(''valid'', JBool False)] ''valid'' = JBool False"
      by (simp add: get_def)
    ultimately show ?thesis by blast
  qed
qed

lemma validateSetup_documented:
  "logs (snd (validateSetup (Body (validate_response r False vs)) st)) =
     logs st @ map (\<lambda>(k, b). \<lparr>message = [JStr ''Validation failed for '', JStr k], type = ''error''\<rparr>)
                 (filter (\<lambda>(k, b). \<not> b) (own_entries vs))"
proof -
  let ?data = "validate_response r False vs"
  have f: "\<not> truthy (get ?data ''valid'')"
    by (simp add: validate_response_def get_def)
  have e: "Object_entries (get ?data ''validations'') =
             Inr (map (\<lambda>(k, b). (k, JBool b)) (own_entries vs))"
    by (simp add: validate_response_def get_def own_entries_values)
  have "filter (\<lambda>(k, v). \<not> truthy v) (map (\<lambda>(k, b). (k, JBool b)) xs) =
          map (\<lambda>(k, b). (k, JBool b)) (filter (\<lambda>(k, b). \<not> b) xs)" for xs :: "(string \<times> bool) list"
    by (induction xs) auto
  then show ?thesis
    using validateSetup_entries(2) [OF f e, of st]
    by (simp add: case_prod_unfold comp_def)
qed

text \<open>
  C6, as amended. \<open>validateSetup\<close> returns an object on every outcome of the fetch and lets
  no exception reach its caller. When the fetch or the parsing throws, and when \<open>valid\<close>
  is falsy and \<open>validations\<close> is missing or null, it returns \<open>{valid: false}\<close> and appends
  one error entry to the log. Otherwise it returns the parsed body as it has received it,
  so that the \<open>valid\<close> field of what it returns is a boolean whenever that of the body is:
  when \<open>valid\<close> is truthy it appends one success entry, and when it is falsy it appends one
  error entry for each entry of \<open>validations\<close> that is falsy, in the order of enumeration,
  and nothing else. On a body of the documented shape whose \<open>valid\<close> is false these are the
  entries of \<open>validations\<close> that are false.
\<close>

theorem validateSetup_result:
  "(\<exists>fs. fst (validateSetup resp st) = Inr fs) \<and>
   (fst (validateSetup (Body data) st) = Inr data \<or>
    fst (validateSetup (Body data) st) = Inr [(''valid'', JBool False)]) \<and>
   ((\<exists>b. get data ''valid'' = JBool b) \<longrightarrow>
      (\<exists>fs b. fst (validateSetup (Body data) st) = Inr fs \<and> get fs ''valid'' = JBool b)) \<and>
   fst (validateSetup (Threw msg) st) = Inr [(''valid'', JBool False)] \<and>
   logs (snd (validateSetup (Threw msg) st)) =
     logs st @ [\<lparr>message = [JStr ''Error validating setup: '', JStr msg], type = ''error''\<rparr>] \<and>
   (truthy (get data ''valid'') \<longrightarrow>
      fst (validateSetup (Body data) st) = Inr data \<and>
      logs (snd (validateSetup (Body data) st)) =
        logs st @ [\<lparr>message = [JStr ''Setup validation successful''], type = ''success''\<rparr>]) \<and>
   (\<not> truthy (get data ''valid'') \<and> Object_entries (get data ''validations'') = Inl m \<longrightarrow>
      fst (validateSetup (Body data) st) = Inr [(''valid'', JBool False)] \<and>
      logs (snd (validateSetup (Body data) st)) =
        logs st @ [\<lparr>message = [JStr ''Error validating setup: '', JStr m], type = ''error''\<rparr>]) \<and>
   (\<not> truthy (get data ''valid'') \<and> Object_entries (get data ''validations'') = Inr es \<longrightarrow>
      fst (validateSetup (Body data) st) = Inr data \<and>
      logs (snd (validateSetup (Body data) st)) =
        logs st @ map (\<lambda>(k, v). \<lparr>message = [JStr ''Validation failed for '', JStr k],
                                 type = ''error''\<rparr>)
                    (filter (\<lambda>(k, v). \<not> truthy v) es)) \<and>
   logs (snd (validateSetup (Body (validate_response r False vs)) st)) =
     logs st @ map (\<lambda>(k, b). \<lparr>message = [JStr ''Validation failed for '', JStr k], type = ''error''\<rparr>)
                 (filter (\<lambda>(k, b). \<not> b) (own_entries vs))"
proof (intro conjI impI)
  show "\<exists>fs. fst (validateSetup resp st) = Inr fs"
    by (rule validateSetup_returns)
  show "fst (validateSetup (Body data) st) = Inr data \<or>
        fst (validateSetup (Body data) st) = Inr [(''valid'', JBool False)]"
    by (rule validateSetup_body_or_invalid)
  show "\<exists>fs b. fst (validateSetup (Body data) st) = Inr fs \<and> get fs ''valid'' = JBool b"
    if "\<exists>b. get data ''valid'' = JBool b"
    using that validateSetup_boolean [of data _ st] by blast
  show "fst (validateSetup (Threw msg) st) = Inr [(''valid'', JBool False)]"
    by (simp add: validateSetup_threw)
  show "logs (snd (validateSetup (Threw msg) st)) =
        logs st @ [\<lparr>message = [JStr ''Error validating setup: '', JStr msg], type = ''error''\<rparr>]"
    by (simp add: validateSetup_threw addLog_def fetch_def)
  show "fst (validateSetup (Body data) st) = Inr data" if "truthy (get data ''valid'')"
    using that by (simp add: validateSetup_valid)
  show "logs (snd (validateSetup (Body data) st)) =
        logs st @ [\<lparr>message = [JStr ''Setup validation successful''], type = ''success''\<rparr>]"
    if "truthy (get data ''valid'')"
    using that by (simp add: validateSetup_valid addLog_def fetch_def)
  show "fst (validateSetup (Body data) st) = Inr [(''valid'', JBool False)]"
    if "\<not> truthy (get data ''valid'') \<and> Object_entries (get data ''validations'') = Inl m"
    using that by (simp add: validateSetup_no_entries)
  show "logs (snd (validateSetup (Body data) st)) =
        logs st @ [\<lparr>message = [JStr ''Error validating setup: '', JStr m], type = ''error''\<rparr>]"
    if "\<not> truthy (get data ''valid'') \<and> Object_entries (get data ''validations'') = Inl m"
    using that by (simp add: validateSetup_no_entries addLog_def fetch_def)
  show "fst (validateSetup (Body data) st) = Inr data"
    if "\<not> truthy (get data ''valid'') \<and> Object_entries (get data ''validations'') = Inr es"
    using that validateSetup_entries(1) by blast
  show "logs (snd (validateSetup (Body data) st)) =
        logs st @ map (\<lambda>(k, v). \<lparr>message = [JStr ''Validation failed for '', JStr k],
                                 type = ''error''\<rparr>)
                    (filter (\<lambda>(k, v). \<not> truthy v) es)"
    if "\<not> truthy (get data ''valid'') \<and> Object_entries (get data ''validations'') = Inr es"
    using that validateSetup_entries(2) by blast
  show "logs (snd (validateSetup (Body (validate_response r False vs)) st)) =
        logs st @ map (\<lambda>(k, b). \<lparr>message = [JStr ''Validation failed for '', JStr k],
                                 type = ''error''\<rparr>)
                    (filter (\<lambda>(k, b). \<not> b) (own_entries vs))"
    by (rule validateSetup_documented)
qed

text \<open>
  A server that reports fpcalc present and the API key missing: the body comes back with
  its \<open>valid\<close> field false, and the log gains one error entry, for the key.
\<close>

theorem validateSetup_result_witness:
  "get (validate_response 1 False [(''fpcalc'', True), (''api_key'', False)]) ''valid'' = JBool False \<and>
   (\<exists>fs b. fst (validateSetup
                  (Body (validate_response 1 False [(''fpcalc'', True), (''api_key'', False)]))
                  initial_pstate) = Inr fs \<and>
           get fs ''valid'' = JBool b) \<and>
   logs (snd (validateSetup
           (Body (validate_response 1 False [(''fpcalc'', True), (''api_key'', False)]))
           initial_pstate))
   = [\<lparr>message = [JStr ''Validation failed for '', JStr ''api_key''], type = ''error''\<rparr>]"
proof -
  let ?body = "validate_response 1 False [(''fpcalc'', True), (''api_key'', False)]"
  note h = validateSetup_result
             [where st = initial_pstate and vs = "[(''fpcalc'', True), (''api_key'', False)]"
                and data = ?body and r = 1]
  have v: "get ?body ''valid'' = JBool False"
    by (simp add: validate_response_def get_def)
  have r: "\<exists>fs b. fst (validateSetup (Body ?body) initial_pstate) = Inr fs \<and>
                  get fs ''valid'' = JBool b"
    using h v by blast
  have k: "index_of_key ''fpcalc'' = None" "index_of_key ''api_key'' = None"
    by (simp_all add: index_of_key_def)
  have o: "own_entries [(''fpcalc'', True), (''api_key'', False)] =
             [(''fpcalc'', True), (''api_key'', False)]"
    by (simp add: own_entries_def k)
  have l: "logs (snd (validateSetup (Body ?body) initial_pstate)) =
           [\<lparr>message = [JStr ''Validation failed for '', JStr ''api_key''], type = ''error''\<rparr>]"
    using h by (simp add: initial_pstate_def o)
  show ?thesis
    using v r l by blast
qed

text \<open>
  C6 as stated fails where the server does not send a boolean: a body whose \<open>valid\<close> is the
  string yes comes back as it is, and so does a body that has \<open>validations\<close> and no \<open>valid\<close>
  at all.
\<close>

theorem validateSetup_valid_counterexample:
  "fst (validateSetup (Body [(''valid'', JStr ''yes'')]) initial_pstate) =
     Inr [(''valid'', JStr ''yes'')] \<and>
   get [(''valid'', JStr ''yes'')] ''valid'' = JStr ''yes'' \<and>
   fst (validateSetup (Body [(''validations'', JObj 1 [])]) initial_pstate) =
     Inr [(''validations'', JObj 1 [])] \<and>
   get [(''validations'', JObj 1 [])] ''valid'' = JUndefined"
  by (simp add: validateSetup_def validateSetup_try_def Let_def get_def own_entries_def)

section \<open>The percentage shown\<close>

lemma round_half_even_nonneg: "0 \<le> y \<Longrightarrow> 0 \<le> round_half_even y"
  by (simp add: round_half_even_def)

lemma round_half_even_le:
  assumes "y \<le> of_int N"
  shows "round_half_even y \<le> N"
proof (cases "\<lfloor>y\<rfloor> = N")
  case True
  then have "of_int N \<le> y"
    using of_int_floor_le [of y] by simp
  then have "y - of_int \<lfloor>y\<rfloor> = 0"
    using assms True by simp
  then show ?thesis
    using True by (simp add: round_half_even_def)
next
  case False
  have "\<lfloor>y\<rfloor> \<le> N"
    using assms by (simp add: floor_le_iff)
  then have "\<lfloor>y\<rfloor> + 1 \<le> N"
    using False by simp
  then show ?thesis
    by (simp add: round_half_even_def)
qed

lemma round_half_even_near: "\<bar>of_int (round_half_even y) - y\<bar> \<le> 1 / 2"
proof -
  have lo: "of_int \<lfloor>y\<rfloor> \<le> y" and hi: "y < of_int \<lfloor>y\<rfloor> + 1"
    by linarith+
  show ?thesis
    using lo hi by (auto simp: round_half_even_def abs_le_iff)
qed

lemma bit_length_mono: "m \<le> n \<Longrightarrow> bit_length m \<le> bit_length n"
proof (induction n arbitrary: m rule: less_induct)
  case (less n)
  show ?case
  proof (cases "m = 0")
    case True
    then show ?thesis by (simp add: bit_length.simps [of 0])
  next
    case False
    then have n: "n \<noteq> 0" using less.prems by simp
    have "m div 2 \<le> n div 2" using less.prems by (rule div_le_mono)
    moreover have "n div 2 < n" using n by simp
    ultimately have "bit_length (m div 2) \<le> bit_length (n div 2)"
      using less.IH by blast
    then show ?thesis
      using False n by (simp add: bit_length.simps [of m] bit_length.simps [of n])
  qed
qed

lemma bit_length_100: "bit_length 100 = 7"
  by code_simp

lemma binade_le_6:
  assumes "0 < x" and "x \<le> 100"
  shows "binade x \<le> 6"
proof (cases "1 \<le> x")
  case True
  have "\<lfloor>x\<rfloor> \<le> 100" using assms(2) by (simp add: floor_le_iff)
  then have "nat \<lfloor>x\<rfloor> \<le> 100" by linarith
  then have "bit_length (nat \<lfloor>x\<rfloor>) \<le> 7"
    using bit_length_mono [of "nat \<lfloor>x\<rfloor>" 100] by (simp add: bit_length_100)
  then show ?thesis using True by (simp add: binade_def)
next
  case False
  then show ?thesis by (simp add: binade_def)
qed

lemma pow2_pos: "0 < pow2 k"
  by (simp add: pow2_def)

lemma pow2_small:
  assumes "k \<le> - 46"
  shows "pow2 k = 1 / 2 ^ nat (- k)" and "pow2 k \<le> 1 / 2 ^ 46"
proof -
  show p: "pow2 k = 1 / 2 ^ nat (- k)"
    using assms by (simp add: pow2_def)
  have "46 \<le> nat (- k)" using assms by simp
  then have "(2::rat) ^ 46 \<le> 2 ^ nat (- k)"
    by (rule power_increasing) simp
  then show "pow2 k \<le> 1 / 2 ^ 46"
    unfolding p by (simp add: frac_le)
qed

text \<open>
  Rounding to a double moves a value by half a unit in the last place at most, and keeps
  it between 0 and 100 when it is there.
\<close>

lemma to_double_bounds:
  assumes "0 \<le> x" and "x \<le> 100"
  shows "0 \<le> to_double x \<and> to_double x \<le> 100 \<and> \<bar>to_double x - x\<bar> \<le> 1 / 2 ^ 47"
proof (cases "x = 0")
  case True
  then show ?thesis
    by (simp add: to_double_def)
next
  case False
  define k where "k = max (binade \<bar>x\<bar>) (- 1022) - 52"
  define n where "n = nat (- k)"
  have pos: "0 < x" using assms(1) False by simp
  have "binade \<bar>x\<bar> \<le> 6"
    using pos assms(2) binade_le_6 [of x] by simp
  then have k: "k \<le> - 46" by (simp add: k_def)
  have u: "pow2 k = 1 / 2 ^ n" and small: "pow2 k \<le> 1 / 2 ^ 46"
    using pow2_small [OF k] by (simp_all add: n_def)
  have td: "to_double x = of_int (round_half_even (x / pow2 k)) * pow2 k"
    using False by (simp add: to_double_def k_def Let_def)
  have y: "x / pow2 k = x * 2 ^ n" by (simp add: u)
  have "0 \<le> x * 2 ^ n" using assms(1) by simp
  then have r0: "0 \<le> round_half_even (x / pow2 k)"
    unfolding y by (rule round_half_even_nonneg)
  have "x * 2 ^ n \<le> 100 * 2 ^ n" using assms(2) by simp
  also have "(100::rat) * 2 ^ n = of_int (100 * 2 ^ n)" by simp
  finally have r1: "round_half_even (x / pow2 k) \<le> 100 * 2 ^ n"
    unfolding y by (rule round_half_even_le)
  have lo: "0 \<le> to_double x"
    unfolding td using r0 pow2_pos [of k] by simp
  have "(of_int (round_half_even (x / pow2 k)) :: rat) \<le> of_int (100 * 2 ^ n)"
    using r1 by (simp only: of_int_le_iff)
  then have "of_int (round_half_even (x / pow2 k)) * pow2 k \<le> of_int (100 * 2 ^ n) * pow2 k"
    using pow2_pos [of k] by (simp add: mult_right_mono)
  also have "of_int (100 * 2 ^ n) * pow2 k = 100"
    by (simp add: u)
  finally have hi: "to_double x \<le> 100"
    unfolding td .
  have "to_double x - x = (of_int (round_half_even (x / pow2 k)) - x / pow2 k) * pow2 k"
    unfolding td using pow2_pos [of k] by (simp add: field_simps)
  then have "\<bar>to_double x - x\<bar> = \<bar>of_int (round_half_even (x / pow2 k)) - x / pow2 k\<bar> * pow2 k"
    using pow2_pos [of k] by (simp add: abs_mult)
  also have "\<dots> \<le> (1 / 2) * pow2 k"
    using round_half_even_near [of "x / pow2 k"] pow2_pos [of k]
    by (simp add: mult_right_mono)
  also have "\<dots> \<le> (1 / 2) * (1 / 2 ^ 46)"
    using small by simp
  finally have near: "\<bar>to_double x - x\<bar> \<le> 1 / 2 ^ 47"
    by simp
  show ?thesis
    using lo hi near by blast
qed

lemma to_double_range:
  assumes "0 \<le> x" and "x \<le> 100"
  shows "0 \<le> to_double x" and "to_double x \<le> 100" and "\<bar>to_double x - x\<bar> \<le> 1 / 2 ^ 47"
  using to_double_bounds [OF assms] by blast+

lemma percentage_range:
  assumes "0 \<le> p" and "p \<le> 1"
  shows "0 \<le> Math_round (double_times p 100)" and "Math_round (double_times p 100) \<le> 100"
proof -
  have x: "0 \<le> p * 100" "p * 100 \<le> 100" using assms by simp_all
  have lo: "0 \<le> double_times p 100" and hi: "double_times p 100 \<le> 100"
    using to_double_range [OF x] by (simp_all add: double_times_def)
  show "0 \<le> Math_round (double_times p 100)"
    using lo by (simp add: Math_round_def)
  have "double_times p 100 + 1 / 2 < 101" using hi by simp
  then have "\<lfloor>double_times p 100 + 1 / 2\<rfloor> < 101"
    by (simp add: floor_less_iff)
  then show "Math_round (double_times p 100) \<le> 100"
    by (simp add: Math_round_def)
qed

text \<open>
  C7, as amended. For a progress \<open>p\<close> with \<open>0 \<le> p \<le> 1\<close>, the percentage shown by
  \<open>ProgressBar\<close> and by the row of \<open>JobList\<close> is \<open>Math.round\<close> of the product \<open>p * 100\<close> as
  it is computed on doubles: the integer nearest to that product, a tie going up, and an
  integer from 0 to 100. The product on doubles is \<open>100 * p\<close> rounded to a double, no more
  than \<open>2^-47\<close> away from it. The width of the bar is that product in the row of \<open>JobList\<close>,
  and the percentage shown in \<open>ProgressBar\<close>.
\<close>

theorem progress_percentage:
  assumes "0 \<le> p" and "p \<le> 1"
  shows "shown (ProgressBar p s) = Math_round (double_times p 100) \<and>
         shown (JobList_progress p s) = Math_round (double_times p 100) \<and>
         Math_round (double_times p 100) = round (double_times p 100) \<and>
         0 \<le> Math_round (double_times p 100) \<and> Math_round (double_times p 100) \<le> 100 \<and>
         \<bar>double_times p 100 - 100 * p\<bar> \<le> 1 / 2 ^ 47 \<and>
         bar_width (JobList_progress p s) = double_times p 100 \<and>
         bar_width (ProgressBar p s) = of_int (Math_round (double_times p 100))"
proof -
  have x: "0 \<le> p * 100" "p * 100 \<le> 100" using assms by simp_all
  have near: "\<bar>double_times p 100 - 100 * p\<bar> \<le> 1 / 2 ^ 47"
    using to_double_range(3) [OF x] by (simp add: double_times_def mult.commute)
  show ?thesis
    using percentage_range [OF assms] near
    by (simp add: ProgressBar_def JobList_progress_def Let_def Math_round_def round_def)
qed

lemma double_145: "double_times (5224175567749775 / 2 ^ 55) 100 = 8162774324609023 / 2 ^ 49"
  by code_simp

lemma double_015: "double_times (1080863910568919 / 2 ^ 56) 100 = 3 / 2"
  by code_simp

text \<open>
  At the double nearest to 0.145 both components show 14, and the bar of \<open>JobList\<close> is a
  little less than 14.5 percent wide.
\<close>

theorem progress_percentage_witness:
  "(0::rat) \<le> 5224175567749775 / 2 ^ 55 \<and> (5224175567749775::rat) / 2 ^ 55 \<le> 1 \<and>
   shown (ProgressBar (5224175567749775 / 2 ^ 55) (JStr ''processing'')) = 14 \<and>
   shown (JobList_progress (5224175567749775 / 2 ^ 55) (JStr ''processing'')) = 14 \<and>
   bar_width (JobList_progress (5224175567749775 / 2 ^ 55) (JStr ''processing'')) =
     8162774324609023 / 2 ^ 49"
proof -
  have m: "Math_round (8162774324609023 / 2 ^ 49) = 14"
    by (simp add: Math_round_def floor_eq_iff)
  have p: "(0::rat) \<le> 5224175567749775 / 2 ^ 55" "(5224175567749775::rat) / 2 ^ 55 \<le> 1"
    by simp_all
  from progress_percentage [OF p, of "JStr ''processing''"] show ?thesis
    unfolding double_145 m using p by blast
qed

text \<open>
  C7 as stated fails at the double nearest to 0.015, which is a little less than 0.015:
  the product on doubles is 1.5 and both components show 2, while \<open>round (100 * p)\<close> is 1;
  and the bar of \<open>ProgressBar\<close> is 2 percent wide, which is not \<open>100 * p\<close>.
\<close>

theorem progress_percentage_counterexample:
  "(0::rat) \<le> 1080863910568919 / 2 ^ 56 \<and> (1080863910568919::rat) / 2 ^ 56 \<le> 1 \<and>
   shown (ProgressBar (1080863910568919 / 2 ^ 56) (JStr ''processing'')) = 2 \<and>
   shown (JobList_progress (1080863910568919 / 2 ^ 56) (JStr ''processing'')) = 2 \<and>
   round (100 * (1080863910568919 / 2 ^ 56 :: rat)) = 1 \<and>
   bar_width (ProgressBar (1080863910568919 / 2 ^ 56) (JStr ''processing'')) = 2 \<and>
   100 * (1080863910568919 / 2 ^ 56 :: rat) < 2"
proof -
  have m: "Math_round (3 / 2) = 2"
    by (simp add: Math_round_def floor_eq_iff)
  have r: "round (100 * (1080863910568919 / 2 ^ 56 :: rat)) = 1"
    by (simp add: round_def floor_eq_iff)
  show ?thesis
    unfolding ProgressBar_def JobList_progress_def Let_def double_015 m
    using r by simp
qed

section \<open>The guard on empty paths\<close>

lemma processing_addLog: "processing (addLog m ty st) = processing st"
  by (simp add: addLog_def)

lemma processing_startProcessing:
  "\<not> processing st \<Longrightarrow> \<not> processing (startProcessing r st)"
  by (cases r)
     (simp_all add: startProcessing_def Let_def setProcessing_def addLog_def fetch_def
        setJobs_def pollJobStatus_def setInterval_def)

lemma processing_fold_validations:
  "processing (fold (\<lambda>(key, valid) s.
                 if \<not> truthy valid
                 then addLog [JStr ''Validation failed for '', JStr key] ''error'' s
                 else s) es st) = processing st"
  by (rule fold_keeps) (simp add: addLog_def split: prod.splits)

lemma processing_validateSetup: "processing (snd (validateSetup r st)) = processing st"
proof (cases r)
  case (Threw msg)
  then show ?thesis
    by (simp add: validateSetup_def validateSetup_try_def Let_def fetch_def addLog_def)
next
  case (Body data)
  show ?thesis
  proof (cases "truthy (get data ''valid'')")
    case True
    then show ?thesis using Body
      by (simp add: validateSetup_def validateSetup_try_def Let_def fetch_def addLog_def)
  next
    case False
    show ?thesis
    proof (cases "Object_entries (get data ''validations'')")
      case (Inl msg)
      then show ?thesis using Body False
        by (simp add: validateSetup_def validateSetup_try_def Let_def fetch_def addLog_def)
    next
      case (Inr es)
      then show ?thesis using Body False
        by (simp add: validateSetup_def validateSetup_try_def Let_def
            processing_fold_validations fetch_def)
    qed
  qed
qed

lemma processing_poll_fire: "processing (poll_fire t st) = processing st"
  by (simp add: poll_fire_def fetch_def)

lemma processing_poll_settle: "processing (poll_settle t r st) = processing st"
  by (cases r)
     (simp_all add: poll_settle_def Let_def setJobs_def addLog_def clearInterval_def)

lemma processing_step: "\<not> processing st \<Longrightarrow> \<not> processing (provider_step e st)"
proof (cases e)
  case (StartProcessing r)
  assume "\<not> processing st"
  then show ?thesis using StartProcessing by (simp add: processing_startProcessing)
next
  case (SelectInputPath r)
  assume "\<not> processing st"
  then show ?thesis using SelectInputPath
    by (simp add: selectInputPath_def addLog_def split: picked.splits list.splits)
next
  case (SelectOutputPath r)
  assume "\<not> processing st"
  then show ?thesis using SelectOutputPath
    by (simp add: selectOutputPath_def addLog_def split: picked.splits list.splits)
next
  case (ValidateSetup r)
  assume "\<not> processing st"
  then show ?thesis using ValidateSetup by (simp add: processing_validateSetup)
next
  case (OpenDirectory r)
  assume "\<not> processing st"
  then show ?thesis using OpenDirectory
    by (simp add: context_openDirectory_def addLog_def split: settled.splits)
next
  case (IntervalFires t)
  assume "\<not> processing st"
  then show ?thesis using IntervalFires by (simp add: processing_poll_fire)
next
  case (StatusSettles t r)
  assume "\<not> processing st"
  then show ?thesis using StatusSettles by (simp add: processing_poll_settle)
qed (simp_all add: addLog_def)

lemma processing_fold:
  "\<not> processing st \<Longrightarrow> \<not> processing (fold provider_step evs st)"
  by (induction evs arbitrary: st) (simp_all add: processing_step)

lemma processing_run: "\<not> processing (provider_run evs)"
  by (simp add: provider_run_def processing_fold initial_pstate_def)

lemma isProcessing_handleProcess:
  "\<not> isProcessing st \<Longrightarrow> \<not> isProcessing (handleProcess r st)"
  by (cases r)
     (simp_all add: handleProcess_def Let_def setIsProcessing_def app_addLog_def app_fetch_def)

lemma isProcessing_checkApiConnection:
  "isProcessing (checkApiConnection r st) = isProcessing st"
  by (cases r) (simp_all add: checkApiConnection_def Let_def app_addLog_def app_fetch_def)

lemma isProcessing_step: "\<not> isProcessing st \<Longrightarrow> \<not> isProcessing (app_step e st)"
proof (cases e)
  case (Mounted r)
  assume "\<not> isProcessing st"
  then show ?thesis using Mounted
    by (simp add: isProcessing_checkApiConnection app_addLog_def)
next
  case (HandleProcess r)
  assume "\<not> isProcessing st"
  then show ?thesis using HandleProcess by (simp add: isProcessing_handleProcess)
next
  case (HandleSelectInput r)
  assume "\<not> isProcessing st"
  then show ?thesis using HandleSelectInput
    by (simp add: handleSelectInput_def app_addLog_def split: picked.splits list.splits)
next
  case (HandleSelectOutput r)
  assume "\<not> isProcessing st"
  then show ?thesis using HandleSelectOutput
    by (simp add: handleSelectOutput_def app_addLog_def split: picked.splits list.splits)
next
  case (Retry r)
  assume "\<not> isProcessing st"
  then show ?thesis using Retry by (simp add: isProcessing_checkApiConnection)
qed (simp_all add: app_addLog_def)

lemma isProcessing_fold:
  "\<not> isProcessing st \<Longrightarrow> \<not> isProcessing (fold app_step evs st)"
  by (induction evs arbitrary: st) (simp_all add: isProcessing_step)

lemma isProcessing_run: "\<not> isProcessing (app_run evs)"
  by (simp add: app_run_def isProcessing_fold initial_app_state_def)

lemma startProcessing_guard:
  "inputPath st = [] \<or> outputPath st = [] \<Longrightarrow>
     startProcessing resp st =
       addLog [JStr ''Input and output paths are required''] ''error'' st"
  by (simp add: startProcessing_def)

lemma handleProcess_guard:
  "app_inputPath a = [] \<or> app_outputPath a = [] \<Longrightarrow>
     handleProcess resp a =
       app_addLog [JStr ''Please select input and output directories first''] ''error'' a"
  by (simp add: handleProcess_def)

text \<open>
  C8. When \<open>inputPath\<close> or \<open>outputPath\<close> is the empty string, \<open>startProcessing\<close> sends no
  request, leaves the jobs list and the intervals as they are, appends exactly one entry
  to the log, of type error, and does not write the processing flag. In every state that
  the calls of the components reach from the initial one, each call taken from its start
  to its return, the flag is false, so that it is false on return. The same holds of
  \<open>handleProcess\<close> of App and its own paths, log and flag.
\<close>

theorem empty_path_guard:
  "(inputPath st = [] \<or> outputPath st = [] \<longrightarrow>
      requests (startProcessing resp st) = requests st \<and>
      jobs (startProcessing resp st) = jobs st \<and>
      timers (startProcessing resp st) = timers st \<and>
      logs (startProcessing resp st) =
        logs st @ [\<lparr>message = [JStr ''Input and output paths are required''], type = ''error''\<rparr>] \<and>
      processing (startProcessing resp st) = processing st) \<and>
   (inputPath (provider_run evs) = [] \<or> outputPath (provider_run evs) = [] \<longrightarrow>
      \<not> processing (startProcessing resp (provider_run evs))) \<and>
   (app_inputPath a = [] \<or> app_outputPath a = [] \<longrightarrow>
      app_requests (handleProcess resp a) = app_requests a \<and>
      app_logs (handleProcess resp a) =
        app_logs a @ [\<lparr>message = [JStr ''Please select input and output directories first''],
                        type = ''error''\<rparr>] \<and>
      isProcessing (handleProcess resp a) = isProcessing a) \<and>
   (app_inputPath (app_run aevs) = [] \<or> app_outputPath (app_run aevs) = [] \<longrightarrow>
      \<not> isProcessing (handleProcess resp (app_run aevs)))"
proof (intro conjI impI)
  assume empty: "inputPath st = [] \<or> outputPath st = []"
  note early = startProcessing_guard [OF empty, of resp]
  show "requests (startProcessing resp st) = requests st"
    by (simp add: early addLog_def)
  show "jobs (startProcessing resp st) = jobs st"
    by (simp add: early addLog_def)
  show "timers (startProcessing resp st) = timers st"
    by (simp add: early addLog_def)
  show "logs (startProcessing resp st) =
          logs st @ [\<lparr>message = [JStr ''Input and output paths are required''], type = ''error''\<rparr>]"
    by (simp add: early addLog_def)
  show "processing (startProcessing resp st) = processing st"
    by (simp add: early addLog_def)
next
  show "\<not> processing (startProcessing resp (provider_run evs))"
    using processing_run [of evs] by (rule processing_startProcessing)
next
  assume empty: "app_inputPath a = [] \<or> app_outputPath a = []"
  note early = handleProcess_guard [OF empty, of resp]
  show "app_requests (handleProcess resp a) = app_requests a"
    by (simp add: early app_addLog_def)
  show "app_logs (handleProcess resp a) =
          app_logs a @ [\<lparr>message = [JStr ''Please select input and output directories first''],
                          type = ''error''\<rparr>]"
    by (simp add: early app_addLog_def)
  show "isProcessing (handleProcess resp a) = isProcessing a"
    by (simp add: early app_addLog_def)
next
  show "\<not> isProcessing (handleProcess resp (app_run aevs))"
    using isProcessing_run [of aevs] by (rule isProcessing_handleProcess)
qed

text \<open>
  In the initial state both paths are empty: a call sends nothing, adds no job, logs one
  entry and leaves the flag false. So it does once an output directory alone has been
  chosen.
\<close>

theorem empty_path_guard_witness:
  "inputPath initial_pstate = [] \<and>
   requests (startProcessing (Body [(''job_id'', JStr ''j1'')]) initial_pstate) = [] \<and>
   jobs (startProcessing (Body [(''job_id'', JStr ''j1'')]) initial_pstate) = [] \<and>
   length (logs (startProcessing (Body [(''job_id'', JStr ''j1'')]) initial_pstate)) = 1 \<and>
   \<not> processing (startProcessing (Body [(''job_id'', JStr ''j1'')]) initial_pstate) \<and>
   inputPath (provider_run [SelectOutputPath (Picked [''/out''])]) = [] \<and>
   \<not> processing (startProcessing (Body [(''job_id'', JStr ''j1'')])
                    (provider_run [SelectOutputPath (Picked [''/out''])])) \<and>
   app_inputPath initial_app_state = [] \<and>
   app_requests (handleProcess (Body [(''job_id'', JStr ''j1'')]) initial_app_state) = [] \<and>
   app_inputPath (app_run [HandleSelectOutput (Picked [''/out''])]) = [] \<and>
   \<not> isProcessing (handleProcess (Body [(''job_id'', JStr ''j1'')])
                      (app_run [HandleSelectOutput (Picked [''/out''])]))"
proof -
  have p: "inputPath (provider_run [SelectOutputPath (Picked [''/out''])]) = []"
    by (simp add: provider_run_def selectOutputPath_def addLog_def initial_pstate_def)
  have q: "app_inputPath (app_run [HandleSelectOutput (Picked [''/out''])]) = []"
    by (simp add: app_run_def handleSelectOutput_def app_addLog_def initial_app_state_def)
  show ?thesis
    using p q
      empty_path_guard [of initial_pstate "Body [(''job_id'', JStr ''j1'')]"
        "[SelectOutputPath (Picked [''/out''])]" initial_app_state
        "[HandleSelectOutput (Picked [''/out''])]"]
    by (simp add: initial_pstate_def initial_app_state_def)
qed

section \<open>StatusBadge\<close>

lemma StatusBadge_known:
  "StatusBadge ''pending'' = badge_with (scheme 1 ''bg-yellow-100'' ''text-yellow-800'') ''pending''"
  "StatusBadge ''processing'' = badge_with (scheme 2 ''bg-blue-100'' ''text-blue-800'') ''processing''"
  "StatusBadge ''completed'' = badge_with (scheme 3 ''bg-green-100'' ''text-green-800'') ''completed''"
  "StatusBadge ''failed'' = badge_with (scheme 4 ''bg-red-100'' ''text-red-800'') ''failed''"
  by (simp_all add: StatusBadge_def lookup_def STATUS_COLORS_def scheme_def)

lemma StatusBadge_children: "children (StatusBadge status) = JStr status"
  by (simp add: StatusBadge_def badge_with_def Let_def)

text \<open>
  A status that is neither one of the four keys nor a property inherited from
  \<open>Object.prototype\<close> is given the colours of \<open>pending\<close>.
\<close>

lemma StatusBadge_fallback:
  assumes "status \<notin> set Object_prototype_keys"
    and "status \<notin> {''pending'', ''processing'', ''completed'', ''failed''}"
  shows "StatusBadge status = badge_with (scheme 1 ''bg-yellow-100'' ''text-yellow-800'') status"
proof -
  have p: "status \<noteq> ''__proto__''"
    using assms(1) by (auto simp: Object_prototype_keys_def)
  have "map_of STATUS_COLORS status = None"
    using assms(2) by (simp add: STATUS_COLORS_def)
  then have "lookup STATUS_COLORS status = JUndefined"
    using assms(1) p by (simp add: lookup_def)
  moreover have "lookup STATUS_COLORS ''pending'' = scheme 1 ''bg-yellow-100'' ''text-yellow-800''"
    by (simp add: lookup_def STATUS_COLORS_def)
  ultimately show ?thesis
    by (simp add: StatusBadge_def)
qed

text \<open>
  C9 at the status \<open>constructor\<close>. \<open>STATUS_COLORS['constructor']\<close> is the inherited
  constructor, which is truthy and has neither \<open>bg\<close> nor \<open>text\<close>: the badge shows the status
  text, but both colour classes are \<open>undefined\<close> and the colours of \<open>pending\<close> are not
  used. The status cell of \<open>JobList\<close> gives the same status the colours of \<open>pending\<close>.
\<close>

theorem StatusBadge_inherited_key:
  "StatusBadge ''constructor'' =
     \<lparr>className = [JStr ''inline-flex items-center px-2.5 py-0.5 rounded-full text-xs font-medium '',
                   JUndefined, JStr '' '', JUndefined],
      children = JStr ''constructor''\<rparr> \<and>
   StatusBadge ''constructor'' \<noteq>
     badge_with (scheme 1 ''bg-yellow-100'' ''text-yellow-800'') ''constructor'' \<and>
   JobList_status_class (JStr ''constructor'') = ''bg-yellow-100 text-yellow-800''"
  by (simp add: StatusBadge_def lookup_def STATUS_COLORS_def scheme_def badge_with_def member_def
      Object_prototype_def
      Object_prototype_keys_def JobList_status_class_def)

section \<open>The bound on registered listeners\<close>

lemma counts_agree_init: "counts_agree preload_init"
  by (simp add: counts_agree_def preload_init_def registered_def)

lemma counts_agree_step: "counts_agree st \<Longrightarrow> counts_agree (api_step c st)"
  by (cases c)
     (auto simp: counts_agree_def registered_def onPythonLog_def onPythonError_def
        onPythonExit_def)

lemma counts_agree_fold: "counts_agree st \<Longrightarrow> counts_agree (fold api_step calls st)"
  by (induction calls arbitrary: st) (simp_all add: counts_agree_step)

lemma counts_agree_run: "counts_agree (api_run calls)"
  by (simp add: api_run_def counts_agree_fold counts_agree_init)

text \<open>
  C10. After any sequence of calls of \<open>onPythonLog\<close>, \<open>onPythonError\<close> and \<open>onPythonExit\<close>,
  from the loading of the script on, the number of callbacks registered on each of the
  channels python-log, python-error and python-exit is at most 10; no listener is ever
  removed, so this is the number ever registered. A call whose argument is not a function
  changes neither the listeners nor the counters.
\<close>

theorem listeners_bounded:
  "registered ''python-log'' (api_run calls) \<le> 10 \<and>
   registered ''python-error'' (api_run calls) \<le> 10 \<and>
   registered ''python-exit'' (api_run calls) \<le> 10 \<and>
   (\<not> is_function cb \<longrightarrow>
      onPythonLog cb st = st \<and> onPythonError cb st = st \<and> onPythonExit cb st = st)"
  using counts_agree_run [of calls]
  by (simp add: counts_agree_def MAX_LISTENERS_def onPythonLog_def onPythonError_def
      onPythonExit_def)

text \<open>
  Twelve registrations of a function on python-log leave ten listeners; a string registers
  nothing.
\<close>

theorem listeners_bounded_witness:
  "registered ''python-log'' (api_run (replicate 12 (OnPythonLog (JFun 1)))) \<le> 10 \<and>
   \<not> is_function (JStr ''cb'') \<and>
   onPythonLog (JStr ''cb'') preload_init = preload_init"
  using listeners_bounded [of "replicate 12 (OnPythonLog (JFun 1))" "JStr ''cb''" preload_init]
  by simp

end
